theory Spec2Isabelle
  imports Complex_Main "HOL-Library.Word"
begin

section \<open>JavaScript strings\<close>

text \<open>
  A JavaScript string is a sequence of 16-bit code units. Literals of the source are
  written \<open>js ''...''\<close>.
\<close>

type_synonym code_unit = "16 word"
type_synonym jsstring = "code_unit list"

definition js :: "string \<Rightarrow> jsstring" where
  "js s = map of_char s"

text \<open>
  \<open>String.prototype.trim\<close> removes WhiteSpace and LineTerminator code units from both
  ends (ECMA-262, 22.1.3.32): TAB, VT, FF, SP, NBSP, ZWNBSP, the space separators, and
  LF, CR, LS, PS.
\<close>

definition isWhiteSpace :: "code_unit \<Rightarrow> bool" where
  "isWhiteSpace c \<longleftrightarrow>
     c \<in> set [0x9, 0xA, 0xB, 0xC, 0xD, 0x20, 0xA0, 0x1680, 0x2028, 0x2029, 0x202F,
              0x205F, 0x3000, 0xFEFF]
     \<or> (0x2000 \<le> c \<and> c \<le> 0x200A)"

definition trim :: "jsstring \<Rightarrow> jsstring" where
  "trim s = rev (dropWhile isWhiteSpace (rev (dropWhile isWhiteSpace s)))"

definition startsWith :: "'a list \<Rightarrow> 'a list \<Rightarrow> bool" where
  "startsWith s p \<longleftrightarrow> take (length p) s = p"

text \<open>\<open>s.includes(p)\<close>: \<open>p\<close> occurs somewhere in \<open>s\<close>.\<close>

fun str_includes :: "'a list \<Rightarrow> 'a list \<Rightarrow> bool" where
  "str_includes [] p = (p = [])"
| "str_includes (c # cs) p = (startsWith (c # cs) p \<or> str_includes cs p)"

text \<open>
  \<open>s.replace(/p/g, "")\<close> for a pattern \<open>p\<close> of literal characters: the matches are
  found from left to right, each search resuming after the previous match, and are deleted.
\<close>

function remove_all :: "'a list \<Rightarrow> 'a list \<Rightarrow> 'a list" where
  "remove_all p [] = []"
| "remove_all p (c # cs) =
     (if p \<noteq> [] \<and> startsWith (c # cs) p
      then remove_all p (drop (length p) (c # cs))
      else c # remove_all p cs)"
  by pat_completeness auto
termination
  by (relation "measure (\<lambda>(p, s). length s)") auto

text \<open>
  \<open>s.indexOf(c)\<close> and \<open>s.lastIndexOf(c)\<close> for a one-character search string: the
  position of the first (last) occurrence, or \<open>-1\<close>.
\<close>

fun indexOf :: "'a list \<Rightarrow> 'a \<Rightarrow> int" where
  "indexOf [] x = -1"
| "indexOf (c # cs) x =
     (if c = x then 0 else (let i = indexOf cs x in if i = -1 then -1 else i + 1))"

definition lastIndexOf :: "'a list \<Rightarrow> 'a \<Rightarrow> int" where
  "lastIndexOf s x =
     (let i = indexOf (rev s) x in if i = -1 then -1 else int (length s) - 1 - i)"

text \<open>
  \<open>s.substring(start, end)\<close>: both arguments are clamped to \<open>[0, length]\<close> and swapped
  when \<open>start > end\<close>.
\<close>

definition substring :: "'a list \<Rightarrow> int \<Rightarrow> int \<Rightarrow> 'a list" where
  "substring s start fin =
     (let n = int (length s);
          a = min (max start 0) n;
          b = min (max fin 0) n;
          lo = min a b;
          hi = max a b
      in take (nat (hi - lo)) (drop (nat lo) s))"

section \<open>Numbers\<close>

text \<open>
  A JavaScript number is an IEEE double. The model keeps a finite number as its exact
  rational value and has the three non-finite values apart. Conversion of a decimal
  literal saturates as a double does (values that round to an infinity, values that
  round to zero); the rounding of the mantissa inside the finite range is not modelled,
  and the sign of zero is not kept.
\<close>

datatype number = Finite rat | NaN | PosInfinity | NegInfinity

definition number_of_rat :: "rat \<Rightarrow> number" where
  "number_of_rat r =
     (if 2 ^ 1024 - 2 ^ 970 \<le> \<bar>r\<bar> then (if 0 < r then PosInfinity else NegInfinity)
      else if \<bar>r\<bar> \<le> 1 / 2 ^ 1075 then Finite 0
      else Finite r)"

section \<open>JSON values and \<open>JSON.parse\<close>\<close>

text \<open>
  The values \<open>JSON.parse\<close> can return. An object is kept as the list of its members in
  the order of the text; a property read takes the last member of that name, as the
  last duplicate wins in JavaScript. The type is polymorphic in the strings so that the
  shape of a value can be separated from the text in it.
\<close>

datatype 's json =
    JNull
  | JBool bool
  | JNumber number
  | JString 's
  | JArray "'s json list"
  | JObject "('s \<times> 's json) list"

type_synonym jsvalue = "jsstring json"

datatype js_error = SyntaxError | TypeError | Error jsstring

subsection \<open>Tokens\<close>

datatype 's token =
    TLBrace | TRBrace | TLBracket | TRBracket | TColon | TComma
  | TString 's | TNumber number | TTrue | TFalse | TNull

definition is_json_ws :: "code_unit \<Rightarrow> bool" where
  "is_json_ws c \<longleftrightarrow> c = 0x9 \<or> c = 0xA \<or> c = 0xD \<or> c = 0x20"

definition is_digit :: "code_unit \<Rightarrow> bool" where
  "is_digit c \<longleftrightarrow> 0x30 \<le> c \<and> c \<le> 0x39"

definition digit_val :: "code_unit \<Rightarrow> nat" where
  "digit_val c = unat c - 48"

definition hex_val :: "code_unit \<Rightarrow> nat option" where
  "hex_val c =
     (if 0x30 \<le> c \<and> c \<le> 0x39 then Some (unat c - 48)
      else if 0x41 \<le> c \<and> c \<le> 0x46 then Some (unat c - 55)
      else if 0x61 \<le> c \<and> c \<le> 0x66 then Some (unat c - 87)
      else None)"

definition hex4 :: "code_unit \<Rightarrow> code_unit \<Rightarrow> code_unit \<Rightarrow> code_unit \<Rightarrow> code_unit option" where
  "hex4 a b c d =
     (case (hex_val a, hex_val b, hex_val c, hex_val d) of
        (Some x, Some y, Some z, Some w) \<Rightarrow> Some (of_nat (((x * 16 + y) * 16 + z) * 16 + w))
      | _ \<Rightarrow> None)"

text \<open>The single-character escapes of a JSON string: \<open>\" \\ \/ \b \f \n \r \t\<close>.\<close>

definition simple_escape :: "code_unit \<Rightarrow> code_unit option" where
  "simple_escape e =
     (if e = 0x22 then Some 0x22
      else if e = 0x5C then Some 0x5C
      else if e = 0x2F then Some 0x2F
      else if e = 0x62 then Some 0x8
      else if e = 0x66 then Some 0xC
      else if e = 0x6E then Some 0xA
      else if e = 0x72 then Some 0xD
      else if e = 0x74 then Some 0x9
      else None)"

definition cons_unit :: "code_unit \<Rightarrow> (jsstring \<times> jsstring) option \<Rightarrow> (jsstring \<times> jsstring) option" where
  "cons_unit u r = map_option (\<lambda>(s, rest). (u # s, rest)) r"

text \<open>
  The body of a string literal, read after the opening quote: the decoded string and
  the text after the closing quote. A control character, a bad escape or the end of the
  text inside the literal is a syntax error (\<open>None\<close>).
\<close>

fun lex_string :: "jsstring \<Rightarrow> (jsstring \<times> jsstring) option" where
  "lex_string [] = None"
| "lex_string (c # cs) =
     (if c = 0x22 then Some ([], cs)
      else if c = 0x5C then
        (case cs of
           [] \<Rightarrow> None
         | e # cs' \<Rightarrow>
             if e = 0x75 then
               (case cs' of
                  h1 # h2 # h3 # h4 # cs'' \<Rightarrow>
                    (case hex4 h1 h2 h3 h4 of
                       None \<Rightarrow> None
                     | Some u \<Rightarrow> cons_unit u (lex_string cs''))
                | _ \<Rightarrow> None)
             else
               (case simple_escape e of
                  None \<Rightarrow> None
                | Some u \<Rightarrow> cons_unit u (lex_string cs')))
      else if c < 0x20 then None
      else cons_unit c (lex_string cs))"

text \<open>
  A number literal: \<open>-? (0 | [1-9][0-9]*) (. [0-9]+)? ([eE] [+-]? [0-9]+)?\<close>, and its
  value.
\<close>

definition digits_val :: "jsstring \<Rightarrow> nat" where
  "digits_val ds = foldl (\<lambda>a c. 10 * a + digit_val c) 0 ds"

definition scale10 :: "rat \<Rightarrow> int \<Rightarrow> rat" where
  "scale10 r e = (if 0 \<le> e then r * 10 ^ nat e else r / 10 ^ nat (- e))"

fun split_sign :: "jsstring \<Rightarrow> bool \<times> jsstring" where
  "split_sign [] = (False, [])"
| "split_sign (c # r) = (if c = 0x2D then (True, r) else (False, c # r))"

text \<open>The optional fraction: its digits and the text after it.\<close>

fun fraction_part :: "jsstring \<Rightarrow> (jsstring \<times> jsstring) option" where
  "fraction_part [] = Some ([], [])"
| "fraction_part (c # r) =
     (if c = 0x2E then
        (if takeWhile is_digit r = [] then None
         else Some (takeWhile is_digit r, dropWhile is_digit r))
      else Some ([], c # r))"

fun split_exponent_sign :: "jsstring \<Rightarrow> bool \<times> jsstring" where
  "split_exponent_sign [] = (False, [])"
| "split_exponent_sign (d # r) =
     (if d = 0x2D then (True, r) else if d = 0x2B then (False, r) else (False, d # r))"

text \<open>The optional exponent: its value and the text after it.\<close>

fun exponent_part :: "jsstring \<Rightarrow> (int \<times> jsstring) option" where
  "exponent_part [] = Some (0, [])"
| "exponent_part (c # r) =
     (if c = 0x65 \<or> c = 0x45 then
        (case split_exponent_sign r of
           (eneg, r') \<Rightarrow>
             if takeWhile is_digit r' = [] then None
             else Some ((if eneg then - int (digits_val (takeWhile is_digit r'))
                         else int (digits_val (takeWhile is_digit r'))),
                        dropWhile is_digit r'))
      else Some (0, c # r))"

definition number_literal :: "jsstring \<Rightarrow> number option" where
  "number_literal s =
     (case split_sign s of
        (neg, s1) \<Rightarrow>
          (let ip = takeWhile is_digit s1 in
           case fraction_part (dropWhile is_digit s1) of
             None \<Rightarrow> None
           | Some (fp, s3) \<Rightarrow>
               (case exponent_part s3 of
                  None \<Rightarrow> None
                | Some (ex, s4) \<Rightarrow>
                    if ip = [] \<or> (1 < length ip \<and> hd ip = 0x30) \<or> s4 \<noteq> [] then None
                    else
                      (let m = of_nat (digits_val ip) + of_nat (digits_val fp) / 10 ^ length fp;
                           r = scale10 m ex
                       in Some (number_of_rat (if neg then - r else r))))))"

definition is_num_char :: "code_unit \<Rightarrow> bool" where
  "is_num_char c \<longleftrightarrow> is_digit c \<or> c = 0x2D \<or> c = 0x2B \<or> c = 0x2E \<or> c = 0x65 \<or> c = 0x45"

definition cons_token :: "'s token \<Rightarrow> 's token list option \<Rightarrow> 's token list option" where
  "cons_token t r = map_option ((#) t) r"

lemma lex_string_length:
  "lex_string s = Some (str, rest) \<Longrightarrow> length rest < length s"
proof (induction s arbitrary: str rule: lex_string.induct)
  case 1
  then show ?case by simp
next
  case (2 c cs)
  show ?case
    using "2.prems" "2.IH"
    by (fastforce simp: cons_unit_def split: if_splits list.splits option.splits)
qed

text \<open>
  The tokens of a JSON text. A number token is the longest run of number characters,
  which must then be a number literal: in a well-formed text a number is followed by
  white space, a comma, a closing bracket or the end, so the longest run is the literal.
\<close>

function lex :: "jsstring \<Rightarrow> jsstring token list option" where
  "lex [] = Some []"
| "lex (c # cs) =
     (if is_json_ws c then lex cs
      else if c = 0x7B then cons_token TLBrace (lex cs)
      else if c = 0x7D then cons_token TRBrace (lex cs)
      else if c = 0x5B then cons_token TLBracket (lex cs)
      else if c = 0x5D then cons_token TRBracket (lex cs)
      else if c = 0x3A then cons_token TColon (lex cs)
      else if c = 0x2C then cons_token TComma (lex cs)
      else if c = 0x22 then
        (case lex_string cs of
           None \<Rightarrow> None
         | Some (str, rest) \<Rightarrow> cons_token (TString str) (lex rest))
      else if c = 0x2D \<or> is_digit c then
        (case number_literal (c # takeWhile is_num_char cs) of
           None \<Rightarrow> None
         | Some n \<Rightarrow> cons_token (TNumber n) (lex (dropWhile is_num_char cs)))
      else if startsWith (c # cs) (js ''true'') then cons_token TTrue (lex (drop 3 cs))
      else if startsWith (c # cs) (js ''false'') then cons_token TFalse (lex (drop 4 cs))
      else if startsWith (c # cs) (js ''null'') then cons_token TNull (lex (drop 3 cs))
      else None)"
  by pat_completeness auto
termination
proof (relation "measure length")
  fix c cs x2 x y
  assume "lex_string cs = Some x2" "(x, y) = x2"
  then show "(y, c # cs) \<in> measure length"
    using lex_string_length [of cs x y] by simp
qed (auto simp: less_Suc_eq_le length_dropWhile_le)

subsection \<open>Parsing the tokens\<close>

text \<open>
  A pushdown recogniser: the stack holds the containers that are still open, each with
  the elements or members read so far (most recent first).
\<close>

datatype 's frame =
    InArray "'s json list"
  | InObject "('s \<times> 's json) list"
  | InMember "('s \<times> 's json) list" 's

datatype expect = EValue | EValueOrClose | EKeyOrClose | EKey | EColon | ECommaOrClose

datatype 's pstate = Parsing expect "'s frame list" | Finished "'s json"

fun deliver :: "'s json \<Rightarrow> 's frame list \<Rightarrow> 's pstate option" where
  "deliver v [] = Some (Finished v)"
| "deliver v (InArray vs # st) = Some (Parsing ECommaOrClose (InArray (v # vs) # st))"
| "deliver v (InMember ms k # st) = Some (Parsing ECommaOrClose (InObject ((k, v) # ms) # st))"
| "deliver v (InObject ms # st) = None"

fun start_value :: "'s token \<Rightarrow> 's frame list \<Rightarrow> 's pstate option" where
  "start_value TLBracket st = Some (Parsing EValueOrClose (InArray [] # st))"
| "start_value TLBrace st = Some (Parsing EKeyOrClose (InObject [] # st))"
| "start_value (TString s) st = deliver (JString s) st"
| "start_value (TNumber n) st = deliver (JNumber n) st"
| "start_value TTrue st = deliver (JBool True) st"
| "start_value TFalse st = deliver (JBool False) st"
| "start_value TNull st = deliver JNull st"
| "start_value _ st = None"

fun close_frame :: "'s token \<Rightarrow> 's frame list \<Rightarrow> 's pstate option" where
  "close_frame TRBracket (InArray vs # st) = deliver (JArray (rev vs)) st"
| "close_frame TRBrace (InObject ms # st) = deliver (JObject (rev ms)) st"
| "close_frame _ _ = None"

fun read_key :: "'s token \<Rightarrow> 's frame list \<Rightarrow> 's pstate option" where
  "read_key (TString k) (InObject ms # st) = Some (Parsing EColon (InMember ms k # st))"
| "read_key _ _ = None"

fun after_comma :: "'s frame list \<Rightarrow> 's pstate option" where
  "after_comma (InArray vs # st) = Some (Parsing EValue (InArray vs # st))"
| "after_comma (InObject ms # st) = Some (Parsing EKey (InObject ms # st))"
| "after_comma _ = None"

definition is_close :: "'s token \<Rightarrow> bool" where
  "is_close t \<longleftrightarrow> (case t of TRBracket \<Rightarrow> True | TRBrace \<Rightarrow> True | _ \<Rightarrow> False)"

definition is_comma :: "'s token \<Rightarrow> bool" where
  "is_comma t \<longleftrightarrow> (case t of TComma \<Rightarrow> True | _ \<Rightarrow> False)"

definition is_colon :: "'s token \<Rightarrow> bool" where
  "is_colon t \<longleftrightarrow> (case t of TColon \<Rightarrow> True | _ \<Rightarrow> False)"

fun step :: "'s pstate \<Rightarrow> 's token \<Rightarrow> 's pstate option" where
  "step (Finished v) t = None"
| "step (Parsing EValue st) t = start_value t st"
| "step (Parsing EValueOrClose st) t = (if is_close t then close_frame t st else start_value t st)"
| "step (Parsing EKeyOrClose st) t = (if is_close t then close_frame t st else read_key t st)"
| "step (Parsing EKey st) t = read_key t st"
| "step (Parsing EColon st) t = (if is_colon t then Some (Parsing EValue st) else None)"
| "step (Parsing ECommaOrClose st) t = (if is_comma t then after_comma st else close_frame t st)"

fun run :: "'s pstate \<Rightarrow> 's token list \<Rightarrow> 's pstate option" where
  "run s [] = Some s"
| "run s (t # ts) = (case step s t of None \<Rightarrow> None | Some s' \<Rightarrow> run s' ts)"

definition parse_tokens :: "'s token list \<Rightarrow> 's json option" where
  "parse_tokens ts =
     (case run (Parsing EValue []) ts of Some (Finished v) \<Rightarrow> Some v | _ \<Rightarrow> None)"

text \<open>\<open>JSON.parse(text)\<close>: the value, or the SyntaxError it throws.\<close>

definition JSON_parse :: "jsstring \<Rightarrow> js_error + jsvalue" where
  "JSON_parse text =
     (case lex text of
        None \<Rightarrow> Inl SyntaxError
      | Some ts \<Rightarrow> (case parse_tokens ts of None \<Rightarrow> Inl SyntaxError | Some v \<Rightarrow> Inr v))"

section \<open>The response validator\<close>

text \<open>
  \<open>safeJsonParse\<close> of \<open>services/geminiService.ts\<close>. Its result is whatever
  \<open>JSON.parse\<close> returns (the source casts it to \<open>StoryResponse\<close> without a check), or
  \<open>null\<close> from the \<open>catch\<close>; \<open>JNull\<close> is that \<open>null\<close>.
\<close>

definition strip_fences :: "jsstring \<Rightarrow> jsstring" where
  "strip_fences t =
     (if str_includes t (js ''```'')
      then remove_all (js ''```'') (remove_all (js ''```json'') t)
      else t)"

definition narrow_to_braces :: "jsstring \<Rightarrow> jsstring" where
  "narrow_to_braces t =
     (let firstBrace = indexOf t 0x7B;
          lastBrace = lastIndexOf t 0x7D
      in if firstBrace \<noteq> -1 \<and> lastBrace \<noteq> -1
         then substring t firstBrace (lastBrace + 1)
         else t)"

text \<open>The text that reaches \<open>JSON.parse\<close>: the three steps on \<open>cleanText\<close> in the source.\<close>

definition cleanText :: "jsstring \<Rightarrow> jsstring" where
  "cleanText text = narrow_to_braces (strip_fences (trim text))"

definition safeJsonParse :: "jsstring \<Rightarrow> jsvalue" where
  "safeJsonParse text =
     (case JSON_parse (cleanText text) of
        Inr v \<Rightarrow> v
      | Inl error \<Rightarrow> JNull)"

section \<open>\<open>JSON.stringify\<close>\<close>

text \<open>
  \<open>Number::toString\<close>. An integral value prints as its decimal digits, as JavaScript
  prints every integral double below \<open>10^21\<close>. A value with a fraction prints as its
  exact decimal expansion: JavaScript prints the shortest decimal that reads back as the
  same double, which is floating point and outside this development. No result below
  rests on the printing of a fraction.
\<close>

fun nat_digits :: "nat \<Rightarrow> jsstring" where
  "nat_digits n =
     (if n < 10 then [of_nat (48 + n)] else nat_digits (n div 10) @ [of_nat (48 + n mod 10)])"

declare nat_digits.simps [simp del]

fun frac_digits :: "nat \<Rightarrow> rat \<Rightarrow> jsstring" where
  "frac_digits 0 r = []"
| "frac_digits (Suc k) r =
     (if r = 0 then []
      else (let d = \<lfloor>r * 10\<rfloor> in of_nat (48 + nat d) # frac_digits k (r * 10 - of_int d)))"

definition Number_toString :: "number \<Rightarrow> jsstring" where
  "Number_toString x =
     (case x of
        NaN \<Rightarrow> js ''NaN''
      | PosInfinity \<Rightarrow> js ''Infinity''
      | NegInfinity \<Rightarrow> js ''-Infinity''
      | Finite r \<Rightarrow>
          (let a = \<bar>r\<bar>; ip = \<lfloor>a\<rfloor>; fr = a - of_int ip
           in (if r < 0 then [0x2D] else []) @ nat_digits (nat ip) @
              (if fr = 0 then [] else 0x2E # frac_digits (nat (snd (quotient_of fr))) fr)))"

text \<open>
  \<open>QuoteJSONString\<close> (ECMA-262, 25.5.2.3): the short escapes, \<open>\uXXXX\<close> in lower-case
  hexadecimal for the other control characters and for a surrogate that is not part of
  a pair, every other code unit as it is.
\<close>

definition hex_digit :: "nat \<Rightarrow> code_unit" where
  "hex_digit n = (if n < 10 then of_nat (48 + n) else of_nat (87 + n))"

definition unicode_escape :: "code_unit \<Rightarrow> jsstring" where
  "unicode_escape c =
     (let n = unat c
      in [0x5C, 0x75, hex_digit (n div 4096), hex_digit (n div 256 mod 16),
          hex_digit (n div 16 mod 16), hex_digit (n mod 16)])"

definition is_lead :: "code_unit \<Rightarrow> bool" where
  "is_lead c \<longleftrightarrow> 0xD800 \<le> c \<and> c \<le> 0xDBFF"

definition is_trail :: "code_unit \<Rightarrow> bool" where
  "is_trail c \<longleftrightarrow> 0xDC00 \<le> c \<and> c \<le> 0xDFFF"

definition quote_unit :: "code_unit \<Rightarrow> jsstring" where
  "quote_unit c =
     (if c = 0x8 then [0x5C, 0x62]
      else if c = 0x9 then [0x5C, 0x74]
      else if c = 0xA then [0x5C, 0x6E]
      else if c = 0xC then [0x5C, 0x66]
      else if c = 0xD then [0x5C, 0x72]
      else if c = 0x22 then [0x5C, 0x22]
      else if c = 0x5C then [0x5C, 0x5C]
      else if c < 0x20 \<or> is_lead c \<or> is_trail c then unicode_escape c
      else [c])"

fun quote_body :: "jsstring \<Rightarrow> jsstring" where
  "quote_body [] = []"
| "quote_body [c] = quote_unit c"
| "quote_body (c # d # cs) =
     (if is_lead c \<and> is_trail d then c # d # quote_body cs
      else quote_unit c @ quote_body (d # cs))"

definition QuoteJSONString :: "jsstring \<Rightarrow> jsstring" where
  "QuoteJSONString s = 0x22 # quote_body s @ [0x22]"

text \<open>\<open>xs.join(sep)\<close>.\<close>

fun join :: "'a list \<Rightarrow> 'a list list \<Rightarrow> 'a list" where
  "join sep [] = []"
| "join sep [x] = x"
| "join sep (x # y # ys) = x @ sep @ join sep (y # ys)"

text \<open>
  \<open>JSON.stringify(value)\<close> with no indentation. A number that is not finite prints as
  \<open>null\<close>. (A property whose value is \<open>undefined\<close> is left out: the encodings below do
  not create the member.)
\<close>

fun JSON_stringify :: "jsvalue \<Rightarrow> jsstring" where
  "JSON_stringify JNull = js ''null''"
| "JSON_stringify (JBool b) = (if b then js ''true'' else js ''false'')"
| "JSON_stringify (JNumber n) = (case n of Finite r \<Rightarrow> Number_toString n | _ \<Rightarrow> js ''null'')"
| "JSON_stringify (JString s) = QuoteJSONString s"
| "JSON_stringify (JArray vs) = 0x5B # join [0x2C] (map JSON_stringify vs) @ [0x5D]"
| "JSON_stringify (JObject ms) =
     0x7B # join [0x2C] (map (\<lambda>m. QuoteJSONString (fst m) @ 0x3A # JSON_stringify (snd m)) ms)
       @ [0x7D]"

section \<open>The game's types (\<open>types.ts\<close>)\<close>

record CharacterStats =
  health :: number
  resolve :: number
  suspicion :: number

record Achievement =
  ach_id :: jsstring
  ach_title :: jsstring
  ach_description :: jsstring

datatype Status = Alive | Dead | Missing | Unknown

record GameCharacter =
  name :: jsstring
  description :: jsstring
  status :: Status

record StoryResponse =
  narrative :: jsstring
  stats :: CharacterStats
  inventory :: "jsstring list"
  characters :: "GameCharacter list"
  new_achievements :: "Achievement list option"

record DiaryEntry =
  entry_id :: jsstring
  entry_text :: jsstring
  entry_timestamp :: jsstring
  isUserAction :: "bool option"

text \<open>
  The run-time value of each typed value: the object with the declared properties, in
  the order of the declaration. An optional property that is \<open>undefined\<close> has no member.
\<close>

definition json_of_stats :: "CharacterStats \<Rightarrow> jsvalue" where
  "json_of_stats s =
     JObject [(js ''health'', JNumber (health s)), (js ''resolve'', JNumber (resolve s)),
              (js ''suspicion'', JNumber (suspicion s))]"

definition json_of_strings :: "jsstring list \<Rightarrow> jsvalue" where
  "json_of_strings xs = JArray (map JString xs)"

definition json_of_achievement :: "Achievement \<Rightarrow> jsvalue" where
  "json_of_achievement a =
     JObject [(js ''id'', JString (ach_id a)), (js ''title'', JString (ach_title a)),
              (js ''description'', JString (ach_description a))]"

definition status_string :: "Status \<Rightarrow> jsstring" where
  "status_string s =
     (case s of Alive \<Rightarrow> js ''Alive'' | Dead \<Rightarrow> js ''Dead'' | Missing \<Rightarrow> js ''Missing''
      | Unknown \<Rightarrow> js ''Unknown'')"

definition json_of_character :: "GameCharacter \<Rightarrow> jsvalue" where
  "json_of_character c =
     JObject [(js ''name'', JString (name c)), (js ''description'', JString (description c)),
              (js ''status'', JString (status_string (status c)))]"

definition json_of_entry :: "DiaryEntry \<Rightarrow> jsvalue" where
  "json_of_entry e =
     JObject ([(js ''id'', JString (entry_id e)), (js ''text'', JString (entry_text e)),
               (js ''timestamp'', JString (entry_timestamp e))]
              @ (case isUserAction e of None \<Rightarrow> [] | Some b \<Rightarrow> [(js ''isUserAction'', JBool b)]))"

definition json_of_response :: "StoryResponse \<Rightarrow> jsvalue" where
  "json_of_response r =
     JObject ([(js ''narrative'', JString (narrative r)),
               (js ''stats'', json_of_stats (stats r)),
               (js ''inventory'', json_of_strings (inventory r)),
               (js ''characters'', JArray (map json_of_character (characters r)))]
              @ (case new_achievements r of
                   None \<Rightarrow> []
                 | Some as \<Rightarrow> [(js ''new_achievements'', JArray (map json_of_achievement as))]))"

section \<open>The AI service (\<open>services/geminiService.ts\<close>)\<close>

text \<open>
  The client library is not part of the repository; it is a parameter of the model. An
  \<open>'ai\<close> is a \<open>GoogleGenAI\<close> instance and a \<open>'chat\<close> is a \<open>Chat\<close>, the conversation
  held by the library. \<open>sendMessage\<close> answers with a response or throws, and leaves the
  chat in a new state; the chat configuration of \<open>startNewStory\<close> (model name, system
  instruction, temperature, response schema) is a constant of the source that
  \<open>chats_create\<close> stands for. Calls are awaited one after the other.
\<close>

record GroundingChunkWeb =
  uri :: "jsstring option"
  title :: "jsstring option"

record GroundingChunk =
  web :: "GroundingChunkWeb option"

record GroundingMetadata =
  groundingChunks :: "GroundingChunk list option"

record Candidate =
  groundingMetadata :: "GroundingMetadata option"

record GenerateContentResponse =
  response_text :: "jsstring option"
  candidates :: "Candidate list option"

record ('ai, 'chat) sdk =
  GoogleGenAI :: "jsstring \<Rightarrow> 'ai"
  chats_create :: "'ai \<Rightarrow> 'chat"
  sendMessage :: "'chat \<Rightarrow> jsstring \<Rightarrow> (js_error + GenerateContentResponse) \<times> 'chat"
  generateContent :: "'ai \<Rightarrow> jsstring \<Rightarrow> bool \<Rightarrow> js_error + GenerateContentResponse"

text \<open>The two module-level variables.\<close>

record ('ai, 'chat) module_state =
  chatSession :: "'chat option"
  aiInstance :: "'ai option"


text \<open>
  The truth value of a parsed value in \<open>if (parsed)\<close>: \<open>null\<close>, \<open>false\<close>, zero and the
  empty string are false.
\<close>

definition truthy :: "jsvalue \<Rightarrow> bool" where
  "truthy v =
     (case v of
        JNull \<Rightarrow> False
      | JBool b \<Rightarrow> b
      | JNumber n \<Rightarrow> n \<noteq> Finite 0 \<and> n \<noteq> NaN
      | JString s \<Rightarrow> s \<noteq> []
      | _ \<Rightarrow> True)"


text \<open>
  The part of both story functions after \<open>sendMessage\<close>: the parsed response, or the
  error that the \<open>catch\<close> of the caller receives.
\<close>

definition parsed_response :: "js_error + GenerateContentResponse \<Rightarrow> js_error + jsvalue" where
  "parsed_response r =
     (case r of
        Inl e \<Rightarrow> Inl e
      | Inr response \<Rightarrow>
          (case response_text response of
             None \<Rightarrow> Inl (Error (js ''Invalid AI response''))
           | Some t \<Rightarrow>
               if t \<noteq> [] \<and> truthy (safeJsonParse t) then Inr (safeJsonParse t)
               else Inl (Error (js ''Invalid AI response''))))"

definition start_prompt :: "jsstring \<Rightarrow> jsstring" where
  "start_prompt premise =
     js ''START GAME. Premise: '' @ [0x22] @ premise @ [0x22] @
     js ''. Initialize stats (100/100/0). Give 1 starting item. Initialize character list (maybe just the protagonist or a key contact).''"

definition start_fallback :: StoryResponse where
  "start_fallback =
     \<lparr>narrative = js ''The city is quiet tonight. Too quiet. (System Error)'',
      stats = \<lparr>health = Finite 100, resolve = Finite 100, suspicion = Finite 0\<rparr>,
      inventory = [js ''(Unknown)''],
      characters = [],
      new_achievements = None\<rparr>"

definition startNewStory ::
  "('ai, 'chat) sdk \<Rightarrow> jsstring \<Rightarrow> ('ai, 'chat) module_state
     \<Rightarrow> (js_error + jsvalue) \<times> ('ai, 'chat) module_state" where
  "startNewStory lib premise m =
     (case aiInstance m of
        None \<Rightarrow> (Inl (Error (js ''Gemini not initialized.'')), m)
      | Some ai \<Rightarrow>
          (let (r, chat) = sendMessage lib (chats_create lib ai) (start_prompt premise);
               m' = m\<lparr>chatSession := Some chat\<rparr>
           in case parsed_response r of
                Inr parsed \<Rightarrow> (Inr parsed, m')
              | Inl error \<Rightarrow> (Inr (json_of_response start_fallback), m')))"

definition next_prompt ::
  "jsstring \<Rightarrow> CharacterStats \<Rightarrow> jsstring list \<Rightarrow> GameCharacter list \<Rightarrow> jsstring" where
  "next_prompt userAction currentStats currentInventory currentCharacters =
     (let finalAction = (if trim userAction = [] then js ''I wait.'' else userAction)
      in [0xA] @ js ''    Context:'' @ [0xA] @
         js ''    - Stats: HP:'' @ Number_toString (health currentStats) @
         js '', PSY:'' @ Number_toString (resolve currentStats) @
         js '', SUS:'' @ Number_toString (suspicion currentStats) @ [0xA] @
         js ''    - Inventory: '' @ JSON_stringify (json_of_strings currentInventory) @ [0xA] @
         js ''    - Known Characters: '' @
           JSON_stringify (json_of_strings (map name currentCharacters)) @ [0xA] @
         [0xA] @
         js ''    Action: '' @ [0x22] @ finalAction @ [0x22] @ [0xA] @
         js ''    '')"

definition next_fallback ::
  "CharacterStats \<Rightarrow> jsstring list \<Rightarrow> GameCharacter list \<Rightarrow> StoryResponse" where
  "next_fallback currentStats currentInventory currentCharacters =
     \<lparr>narrative = js ''The shadows lengthen... (AI Connection Error)'',
      stats = currentStats,
      inventory = currentInventory,
      characters = currentCharacters,
      new_achievements = None\<rparr>"

definition generateNextEntry ::
  "('ai, 'chat) sdk \<Rightarrow> jsstring \<Rightarrow> CharacterStats \<Rightarrow> jsstring list \<Rightarrow> GameCharacter list
     \<Rightarrow> ('ai, 'chat) module_state \<Rightarrow> (js_error + jsvalue) \<times> ('ai, 'chat) module_state" where
  "generateNextEntry lib userAction currentStats currentInventory currentCharacters m =
     (case chatSession m of
        None \<Rightarrow> (Inl (Error (js ''Game session not active.'')), m)
      | Some session \<Rightarrow>
          (let (r, chat) =
                 sendMessage lib session
                   (next_prompt userAction currentStats currentInventory currentCharacters);
               m' = m\<lparr>chatSession := Some chat\<rparr>
           in case parsed_response r of
                Inr parsed \<Rightarrow> (Inr parsed, m')
              | Inl error \<Rightarrow>
                  (Inr (json_of_response
                          (next_fallback currentStats currentInventory currentCharacters)), m')))"

definition summary_prompt :: "DiaryEntry list \<Rightarrow> jsstring" where
  "summary_prompt es =
     (let storyText =
            join [0xA]
              (map (\<lambda>e. (if isUserAction e = Some True then js ''> Player'' else js ''Narrator'')
                          @ js '': '' @ entry_text e)
                 (drop (length es - 20) es))
      in [0xA] @ js ''        You are a Noir Detective'' @ [0x27] @ js ''s assistant.'' @ [0xA] @
         js ''        Analyze the following case log and provide a gritty, concise summary (max 3 bullet points) of the current situation, clues, and immediate danger.'' @ [0xA] @
         js ''        '' @ [0xA] @
         js ''        LOG:'' @ [0xA] @
         js ''        '' @ storyText @ [0xA] @
         js ''        '')"

definition generateCaseSummary ::
  "('ai, 'chat) sdk \<Rightarrow> DiaryEntry list \<Rightarrow> ('ai, 'chat) module_state \<Rightarrow> jsstring" where
  "generateCaseSummary lib es m =
     (case aiInstance m of
        None \<Rightarrow> js ''Signal weak. Cannot compile summary.''
      | Some ai \<Rightarrow>
          (case generateContent lib ai (summary_prompt es) False of
             Inl e \<Rightarrow> js ''Unable to compile case file.''
           | Inr response \<Rightarrow>
               (case response_text response of
                  None \<Rightarrow> js ''No summary available.''
                | Some t \<Rightarrow> if t = [] then js ''No summary available.'' else t)))"

record NewsResult =
  news_text :: "jsstring option"
  sources :: "GroundingChunkWeb list"

definition news_prompt :: "jsstring \<Rightarrow> jsstring" where
  "news_prompt premise =
     js ''Find 3-5 real-world recent news headlines or historical events that thematically align with this story premise: ''
       @ [0x22] @ premise @ [0x22] @ js ''.'' @ [0xA] @
     js ''  If the premise implies a specific era (e.g., 1940s), find news from that era.'' @ [0xA] @
     js ''  If it'' @ [0x27] @ js ''s modern, find current news about crime, mysteries, or relevant topics.'' @ [0xA] @
     js ''  Format as a short, punchy list.''"

text \<open>
  \<open>response.candidates?.[0]?.groundingMetadata?.groundingChunks?.map(chunk => chunk.web)
  .filter(w => w) || []\<close>
\<close>

definition response_sources :: "GenerateContentResponse \<Rightarrow> GroundingChunkWeb list" where
  "response_sources response =
     (case candidates response of
        None \<Rightarrow> []
      | Some [] \<Rightarrow> []
      | Some (c # cs) \<Rightarrow>
          (case groundingMetadata c of
             None \<Rightarrow> []
           | Some gm \<Rightarrow>
               (case groundingChunks gm of
                  None \<Rightarrow> []
                | Some chunks \<Rightarrow> List.map_filter (\<lambda>w. w) (map web chunks))))"

definition fetchWorldNews ::
  "('ai, 'chat) sdk \<Rightarrow> jsstring \<Rightarrow> ('ai, 'chat) module_state \<Rightarrow> js_error + NewsResult" where
  "fetchWorldNews lib premise m =
     (case aiInstance m of
        None \<Rightarrow> Inl (Error (js ''AI not initialized''))
      | Some ai \<Rightarrow>
          (case generateContent lib ai (news_prompt premise) True of
             Inl e \<Rightarrow> Inl e
           | Inr response \<Rightarrow>
               Inr \<lparr>news_text = response_text response, sources = response_sources response\<rparr>))"








section \<open>The application (\<open>App.tsx\<close>)\<close>

datatype GameState = START | LOADING_ANIMATION | PLAYING | ERROR

text \<open>
  The state variables of \<open>App\<close> that the handlers below read or write, and the browser's
  \<open>localStorage\<close>.
\<close>

record app =
  gameState :: GameState
  entries :: "DiaryEntry list"
  premise :: jsstring
  app_stats :: CharacterStats
  app_inventory :: "jsstring list"
  app_characters :: "GameCharacter list"
  achievements :: "Achievement list"
  recentAchievement :: "Achievement option"
  newsContent :: "jsstring option"
  newsSources :: "GroundingChunkWeb list"
  isFetchingNews :: bool
  hasSave :: bool
  localStorage :: "jsstring \<rightharpoonup> jsstring"

definition SAVE_KEY :: jsstring where
  "SAVE_KEY = js ''noir_chronicles_save''"

subsection \<open>Saving and loading\<close>

text \<open>
  \<open>handleSave\<close>; \<open>now\<close> is \<open>new Date().toLocaleString()\<close>. The object is the \<open>SaveData\<close>
  literal of the source.
\<close>

definition save_data :: "jsstring \<Rightarrow> app \<Rightarrow> jsvalue" where
  "save_data now st =
     JObject [(js ''entries'', JArray (map json_of_entry (entries st))),
              (js ''stats'', json_of_stats (app_stats st)),
              (js ''inventory'', json_of_strings (app_inventory st)),
              (js ''characters'', JArray (map json_of_character (app_characters st))),
              (js ''achievements'', JArray (map json_of_achievement (achievements st))),
              (js ''premise'', JString (premise st)),
              (js ''timestamp'', JString now)]"

definition handleSave :: "jsstring \<Rightarrow> app \<Rightarrow> app" where
  "handleSave now st =
     st\<lparr>localStorage := (localStorage st)(SAVE_KEY \<mapsto> JSON_stringify (save_data now st)),
        hasSave := True\<rparr>"

text \<open>
  Reading a property of a parsed value, for the property names that \<open>handleLoad\<close> reads:
  \<open>null\<close> has no properties (TypeError); an object gives its member or \<open>undefined\<close>; an
  array inherits \<open>entries\<close> from \<open>Array.prototype\<close>; nothing else has one of these names.
\<close>

datatype property = Undefined | Value jsvalue | Inherited

definition get_prop :: "jsvalue \<Rightarrow> jsstring \<Rightarrow> js_error + property" where
  "get_prop v k =
     (case v of
        JNull \<Rightarrow> Inl TypeError
      | JObject ms \<Rightarrow> Inr (case map_of (rev ms) k of None \<Rightarrow> Undefined | Some x \<Rightarrow> Value x)
      | JArray vs \<Rightarrow> Inr (if k = js ''entries'' then Inherited else Undefined)
      | _ \<Rightarrow> Inr Undefined)"

text \<open>
  \<open>handleLoad\<close> passes what it reads to the state setters without a check. The values are
  run-time values of any shape, so the model returns them as such: \<open>Restored\<close> carries the
  arguments of \<open>setEntries\<close>, \<open>setStats\<close>, \<open>setInventory\<close>, \<open>setCharacters\<close>,
  \<open>setAchievements\<close> and \<open>setPremise\<close>.
\<close>

record restored =
  set_entries :: property
  set_stats :: property
  set_inventory :: property
  set_characters :: property
  set_achievements :: property
  set_premise :: property

datatype load_outcome = NoSave | Restored restored | Corrupted

definition read_save :: "jsvalue \<Rightarrow> js_error + restored" where
  "read_save data =
     (case (get_prop data (js ''entries''), get_prop data (js ''stats''),
            get_prop data (js ''inventory''), get_prop data (js ''characters''),
            get_prop data (js ''achievements''), get_prop data (js ''premise'')) of
        (Inr e, Inr s, Inr i, Inr c, Inr a, Inr p) \<Rightarrow>
          Inr \<lparr>set_entries = e, set_stats = s, set_inventory = i, set_characters = c,
               set_achievements = a, set_premise = p\<rparr>
      | _ \<Rightarrow> Inl TypeError)"

definition handleLoad :: "app \<Rightarrow> load_outcome \<times> app" where
  "handleLoad st =
     (case localStorage st SAVE_KEY of
        None \<Rightarrow> (NoSave, st)
      | Some raw \<Rightarrow>
          if raw = [] then (NoSave, st)
          else
            (case (case JSON_parse raw of Inl e \<Rightarrow> Inl e | Inr data \<Rightarrow> read_save data) of
               Inr r \<Rightarrow> (Restored r, st\<lparr>gameState := LOADING_ANIMATION\<rparr>)
             | Inl error \<Rightarrow>
                 (Corrupted, st\<lparr>localStorage := (localStorage st)(SAVE_KEY := None),
                                 hasSave := False\<rparr>)))"

subsection \<open>Achievements\<close>

text \<open>
  The merge of \<open>handleUserAction\<close> (the block on \<open>response.new_achievements\<close>), for one
  turn at a time: the \<open>achievements\<close> the callback closes over are the current ones.
\<close>

definition merge_achievements :: "Achievement list option \<Rightarrow> app \<Rightarrow> app" where
  "merge_achievements new st =
     (case new of
        None \<Rightarrow> st
      | Some nas \<Rightarrow>
          if 0 < length nas then
            (let uniqueNew =
                   filter (\<lambda>na. \<not> list_ex (\<lambda>a. ach_id a = ach_id na) (achievements st)) nas
             in case uniqueNew of
                  [] \<Rightarrow> st
                | u # us \<Rightarrow> st\<lparr>achievements := achievements st @ uniqueNew,
                               recentAchievement := Some u\<rparr>)
          else st)"

subsection \<open>News\<close>

definition handleFetchNews ::
  "('ai, 'chat) sdk \<Rightarrow> ('ai, 'chat) module_state \<Rightarrow> app \<Rightarrow> app" where
  "handleFetchNews lib m st =
     (let st1 = st\<lparr>isFetchingNews := True, newsContent := None, newsSources := []\<rparr>;
          st2 =
            (case fetchWorldNews lib (premise st1) m of
               Inr result \<Rightarrow>
                 st1\<lparr>newsContent :=
                       Some (case news_text result of
                               None \<Rightarrow> js ''No headlines found.''
                             | Some t \<Rightarrow> if t = [] then js ''No headlines found.'' else t),
                     newsSources := sources result\<rparr>
             | Inl e \<Rightarrow> st1\<lparr>newsContent := Some (js ''Unable to fetch wire services.'')\<rparr>)
      in st2\<lparr>isFetchingNews := False\<rparr>)"

section \<open>Example data\<close>

text \<open>The state of \<open>App\<close> before any game: the initial values of its state variables.\<close>

definition initial_app :: app where
  "initial_app =
     \<lparr>gameState = START, entries = [],
      premise = js ''You are a private investigator in a city that never sleeps. It'' @ [0x27]
                  @ js ''s 3 AM, raining, and you just found something you shouldn'' @ [0x27]
                  @ js ''t have.'',
      app_stats = \<lparr>health = Finite 100, resolve = Finite 100, suspicion = Finite 0\<rparr>,
      app_inventory = [], app_characters = [], achievements = [], recentAchievement = None,
      newsContent = None, newsSources = [], isFetchingNews = False, hasSave = False,
      localStorage = Map.empty\<rparr>"

text \<open>A library whose every request fails: the chat counts the messages sent.\<close>

definition offline_sdk :: "(unit, nat) sdk" where
  "offline_sdk =
     \<lparr>GoogleGenAI = (\<lambda>k. ()), chats_create = (\<lambda>ai. 0),
      sendMessage = (\<lambda>chat msg. (Inl (Error (js ''Failed to fetch'')), Suc chat)),
      generateContent = (\<lambda>ai p tools. Inl (Error (js ''Failed to fetch'')))\<rparr>"

text \<open>A library that answers every request with the same text and two grounding chunks.\<close>

definition wire :: GroundingChunkWeb where
  "wire = \<lparr>uri = Some (js ''https://example.org/wire''), title = Some (js ''Wire'')\<rparr>"

definition canned_sdk :: "jsstring \<Rightarrow> (unit, nat) sdk" where
  "canned_sdk reply =
     \<lparr>GoogleGenAI = (\<lambda>k. ()), chats_create = (\<lambda>ai. 0),
      sendMessage =
        (\<lambda>chat msg. (Inr \<lparr>response_text = Some reply, candidates = None\<rparr>, Suc chat)),
      generateContent =
        (\<lambda>ai p tools.
           Inr \<lparr>response_text = Some reply,
                candidates =
                  Some [\<lparr>groundingMetadata =
                           Some \<lparr>groundingChunks =
                                   Some [\<lparr>web = Some wire\<rparr>, \<lparr>web = None\<rparr>,
                                         \<lparr>web = Some wire\<rparr>]\<rparr>\<rparr>]\<rparr>)\<rparr>"

definition ready_module :: "(unit, nat) module_state" where
  "ready_module = \<lparr>chatSession = None, aiInstance = Some ()\<rparr>"

definition first_blood :: Achievement where
  "first_blood =
     \<lparr>ach_id = js ''first_blood'', ach_title = js ''First Blood'',
      ach_description = js ''You witnessed a murder.''\<rparr>"

definition joe :: GameCharacter where
  "joe = \<lparr>name = js ''Detective Joe'', description = js ''Grizzled partner.'', status = Alive\<rparr>"

section \<open>The story functions\<close>

lemma parsed_response_fails:
  "(\<exists>e. r = Inl e) \<or>
   (\<exists>resp. r = Inr resp \<and>
      (response_text resp = None \<or> response_text resp = Some [] \<or>
       (\<exists>t. response_text resp = Some t \<and> \<not> truthy (safeJsonParse t))))
   \<Longrightarrow> \<exists>e. parsed_response r = Inl e"
  by (auto simp: parsed_response_def split: sum.splits option.splits)

text \<open>
  C4. When a session is active and the turn fails (\<open>sendMessage\<close> throws, or the response
  has no text, or the text does not parse to a usable value), \<open>generateNextEntry\<close> returns
  the object that holds the caller's stats, inventory and characters unchanged and the
  fixed narrative line, and nothing else.
\<close>

theorem generateNextEntry_fallback:
  assumes "chatSession m = Some session"
    and "sendMessage lib session
           (next_prompt userAction currentStats currentInventory currentCharacters) = (r, chat)"
    and "(\<exists>e. r = Inl e) \<or>
         (\<exists>resp. r = Inr resp \<and>
            (response_text resp = None \<or> response_text resp = Some [] \<or>
             (\<exists>t. response_text resp = Some t \<and> \<not> truthy (safeJsonParse t))))"
  shows "generateNextEntry lib userAction currentStats currentInventory currentCharacters m =
     (Inr (JObject [(js ''narrative'', JString (js ''The shadows lengthen... (AI Connection Error)'')),
                    (js ''stats'', json_of_stats currentStats),
                    (js ''inventory'', json_of_strings currentInventory),
                    (js ''characters'', JArray (map json_of_character currentCharacters))]),
      m\<lparr>chatSession := Some chat\<rparr>)"
proof -
  obtain e where "parsed_response r = Inl e"
    using parsed_response_fails [OF assms(3)] by blast
  then show ?thesis
    using assms(1,2)
    by (simp add: generateNextEntry_def json_of_response_def next_fallback_def)
qed

theorem generateNextEntry_fallback_witness:
  "generateNextEntry offline_sdk (js ''look'')
      \<lparr>health = Finite 70, resolve = Finite 55, suspicion = Finite 20\<rparr> [js ''Revolver''] [joe]
      \<lparr>chatSession = Some 3, aiInstance = Some ()\<rparr> =
     (Inr (JObject [(js ''narrative'', JString (js ''The shadows lengthen... (AI Connection Error)'')),
                    (js ''stats'',
                     json_of_stats \<lparr>health = Finite 70, resolve = Finite 55, suspicion = Finite 20\<rparr>),
                    (js ''inventory'', json_of_strings [js ''Revolver'']),
                    (js ''characters'', JArray (map json_of_character [joe]))]),
      \<lparr>chatSession = Some 4, aiInstance = Some ()\<rparr>)"
proof -
  let ?m = "\<lparr>chatSession = Some (3::nat), aiInstance = Some ()\<rparr>"
  let ?r = "Inl (Error (js ''Failed to fetch'')) :: js_error + GenerateContentResponse"
  have h1: "chatSession ?m = Some 3" by simp
  have h2: "sendMessage offline_sdk 3
      (next_prompt (js ''look'') \<lparr>health = Finite 70, resolve = Finite 55, suspicion = Finite 20\<rparr>
         [js ''Revolver''] [joe]) = (?r, 4)"
    by (simp add: offline_sdk_def)
  have h3: "(\<exists>e. ?r = Inl e) \<or>
         (\<exists>resp. ?r = Inr resp \<and>
            (response_text resp = None \<or> response_text resp = Some [] \<or>
             (\<exists>t. response_text resp = Some t \<and> \<not> truthy (safeJsonParse t))))"
    by simp
  show ?thesis
    using generateNextEntry_fallback [OF h1 h2 h3] by simp
qed

text \<open>
  C5. When the connection is initialised and the opening turn fails, \<open>startNewStory\<close>
  returns the fixed fallback: the fixed narrative, stats 100/100/0, the inventory
  \<open>["(Unknown)"]\<close> and no characters.
\<close>

theorem startNewStory_fallback:
  assumes "aiInstance m = Some ai"
    and "sendMessage lib (chats_create lib ai) (start_prompt p) = (r, chat)"
    and "(\<exists>e. r = Inl e) \<or>
         (\<exists>resp. r = Inr resp \<and>
            (response_text resp = None \<or> response_text resp = Some [] \<or>
             (\<exists>t. response_text resp = Some t \<and> \<not> truthy (safeJsonParse t))))"
  shows "fst (startNewStory lib p m) =
     Inr (JObject [(js ''narrative'',
                    JString (js ''The city is quiet tonight. Too quiet. (System Error)'')),
                   (js ''stats'',
                    json_of_stats \<lparr>health = Finite 100, resolve = Finite 100, suspicion = Finite 0\<rparr>),
                   (js ''inventory'', json_of_strings [js ''(Unknown)'']),
                   (js ''characters'', JArray [])])"
proof -
  obtain e where "parsed_response r = Inl e"
    using parsed_response_fails [OF assms(3)] by blast
  then show ?thesis
    using assms(1,2)
    by (simp add: startNewStory_def json_of_response_def start_fallback_def)
qed

theorem startNewStory_fallback_witness:
  "fst (startNewStory offline_sdk (js ''You are a detective...'') ready_module) =
     Inr (JObject [(js ''narrative'',
                    JString (js ''The city is quiet tonight. Too quiet. (System Error)'')),
                   (js ''stats'',
                    json_of_stats \<lparr>health = Finite 100, resolve = Finite 100, suspicion = Finite 0\<rparr>),
                   (js ''inventory'', json_of_strings [js ''(Unknown)'']),
                   (js ''characters'', JArray [])])"
proof -
  let ?r = "Inl (Error (js ''Failed to fetch'')) :: js_error + GenerateContentResponse"
  have h1: "aiInstance ready_module = Some ()" by (simp add: ready_module_def)
  have h2: "sendMessage offline_sdk (chats_create offline_sdk ())
              (start_prompt (js ''You are a detective...'')) = (?r, 1)"
    by (simp add: offline_sdk_def)
  have h3: "(\<exists>e. ?r = Inl e) \<or>
         (\<exists>resp. ?r = Inr resp \<and>
            (response_text resp = None \<or> response_text resp = Some [] \<or>
             (\<exists>t. response_text resp = Some t \<and> \<not> truthy (safeJsonParse t))))"
    by simp
  show ?thesis
    using startNewStory_fallback [OF h1 h2 h3] by simp
qed

lemma trim_blank:
  assumes "\<forall>c \<in> set s. isWhiteSpace c"
  shows "trim s = []"
proof -
  have h: "dropWhile isWhiteSpace s = []"
    using assms by simp
  show ?thesis unfolding trim_def h by simp
qed

lemma trim_I_wait: "trim (js ''I wait.'') \<noteq> []"
  by (simp add: trim_def js_def isWhiteSpace_def)

text \<open>
  C6. An action that is empty or all white space gives the same prompt, and so the same
  call on the session and the same result, as the action \<open>"I wait."\<close>.
\<close>

theorem blank_action_is_wait:
  assumes "\<forall>c \<in> set userAction. isWhiteSpace c"
  shows "next_prompt userAction s i c = next_prompt (js ''I wait.'') s i c
       \<and> generateNextEntry lib userAction s i c m = generateNextEntry lib (js ''I wait.'') s i c m"
proof -
  have eq: "next_prompt userAction s i c = next_prompt (js ''I wait.'') s i c"
    using trim_blank [OF assms] trim_I_wait by (simp add: next_prompt_def)
  show ?thesis
    unfolding generateNextEntry_def eq by simp
qed

theorem blank_action_is_wait_witness:
  "list_all isWhiteSpace (js ''  '')
   \<and> next_prompt (js ''  '') (app_stats initial_app) [] [joe]
       = next_prompt (js ''I wait.'') (app_stats initial_app) [] [joe]
   \<and> generateNextEntry offline_sdk (js ''  '') (app_stats initial_app) [] [joe] ready_module
       = generateNextEntry offline_sdk (js ''I wait.'') (app_stats initial_app) [] [joe] ready_module"
proof -
  have h: "\<forall>c \<in> set (js ''  ''). isWhiteSpace c"
    by (simp add: js_def isWhiteSpace_def)
  show ?thesis
    using h blank_action_is_wait [OF h, of "app_stats initial_app" "[]" "[joe]" offline_sdk ready_module]
    by (simp add: list_all_iff)
qed

section \<open>The session handle\<close>








end
